theory Spec2Isabelle
  imports Main
begin

section \<open>Python values and the built-ins that app.py calls\<close>

text \<open>
  The entry point \<^verbatim>\<open>app.py\<close> is fifteen lines of glue between three things it does not
  define: the Python built-ins \<^verbatim>\<open>int\<close>, \<^verbatim>\<open>str.lower\<close> and \<^verbatim>\<open>os.environ.get\<close>, the Flask
  application object, and Flask's development server.  The built-ins are modelled first.

  A Python \<^verbatim>\<open>str\<close> is a \<^typ>\<open>string\<close> whose characters are code points below 256; on such
  strings the definitions below agree with CPython 3.11.  Code points from 256 on are
  outside the model.
\<close>

datatype py_error =
    ValueError
  | AttributeError
  | KeyError
  | TemplateNotFound
  | TemplateSyntaxError
  | UndefinedError

datatype py_value = PyStr string | PyInt int

type_synonym environ = "string \<rightharpoonup> string"

text \<open>\<^verbatim>\<open>os.environ.get(key, default)\<close>: the variable's value, a \<^verbatim>\<open>str\<close>, when it is set, the
  default (of any type) otherwise.\<close>

definition environ_get :: "environ \<Rightarrow> string \<Rightarrow> py_value \<Rightarrow> py_value" where
  "environ_get env key dflt = (case env key of None \<Rightarrow> dflt | Some v \<Rightarrow> PyStr v)"

subsection \<open>\<^verbatim>\<open>int(x)\<close>\<close>

text \<open>The characters that \<^verbatim>\<open>int\<close> strips from both ends of a string: tab, line feed,
  vertical tab, form feed, carriage return, space, and the two non-ASCII blanks below 256
  (next line U+0085, no-break space U+00A0).\<close>

definition is_space :: "char \<Rightarrow> bool" where
  "is_space c = ((of_char c :: nat) \<in> {9, 10, 11, 12, 13, 32, 133, 160})"

definition is_digit :: "char \<Rightarrow> bool" where
  "is_digit c = (48 \<le> (of_char c :: nat) \<and> (of_char c :: nat) \<le> 57)"

definition strip :: "string \<Rightarrow> string" where
  "strip s = rev (dropWhile is_space (rev (dropWhile is_space s)))"

text \<open>The digits of a literal: one digit, then digits each optionally preceded by a single
  underscore.  So no leading, trailing or doubled underscore, and at least one digit.\<close>

fun digits_ok :: "string \<Rightarrow> bool" and more_digits_ok :: "string \<Rightarrow> bool" where
  "digits_ok [] = False"
| "digits_ok (c # cs) = (is_digit c \<and> more_digits_ok cs)"
| "more_digits_ok [] = True"
| "more_digits_ok (c # cs) =
     (if c = CHR ''_'' then digits_ok cs else is_digit c \<and> more_digits_ok cs)"

definition decimal :: "string \<Rightarrow> int" where
  "decimal ds = foldl (\<lambda>acc c. 10 * acc + int (of_char c - 48)) 0 ds"

text \<open>CPython refuses to convert a decimal string of more than
  \<^verbatim>\<open>sys.get_int_max_str_digits()\<close> digits, 4300 unless reconfigured.\<close>

definition int_max_str_digits :: nat where
  "int_max_str_digits = 4300"

definition int_of_string :: "string \<Rightarrow> py_error + int" where
  "int_of_string s =
     (let t = strip s;
          signed = (t \<noteq> [] \<and> (hd t = CHR ''+'' \<or> hd t = CHR ''-''));
          negative = (t \<noteq> [] \<and> hd t = CHR ''-'');
          body = (if signed then tl t else t);
          ds = filter is_digit body
      in if \<not> digits_ok body then Inl ValueError
         else if int_max_str_digits < length ds then Inl ValueError
         else Inr (if negative then - decimal ds else decimal ds))"

fun py_int :: "py_value \<Rightarrow> py_error + int" where
  "py_int (PyInt n) = Inr n"
| "py_int (PyStr s) = int_of_string s"

subsection \<open>\<^verbatim>\<open>x.lower()\<close>\<close>

text \<open>Below 256 the upper-case code points are A to Z and U+00C0 to U+00DE without the
  multiplication sign U+00D7; each has its lower-case form 32 places on.\<close>

definition is_upper :: "char \<Rightarrow> bool" where
  "is_upper c =
     (let n = (of_char c :: nat)
      in (65 \<le> n \<and> n \<le> 90) \<or> (192 \<le> n \<and> n \<le> 222 \<and> n \<noteq> 215))"

definition lower_char :: "char \<Rightarrow> char" where
  "lower_char c = (if is_upper c then char_of ((of_char c :: nat) + 32) else c)"

definition lower :: "string \<Rightarrow> string" where
  "lower s = map lower_char s"

text \<open>An \<^verbatim>\<open>int\<close> has no method \<^verbatim>\<open>lower\<close>.\<close>

fun py_lower :: "py_value \<Rightarrow> py_error + py_value" where
  "py_lower (PyStr s) = Inr (PyStr (lower s))"
| "py_lower (PyInt n) = Inl AttributeError"

text \<open>Case-insensitive equality as the specification words it, independent of
  \<^const>\<open>lower\<close>'s use in the code: the strings have the same length and, position by
  position, the same character or the two cases of one letter.\<close>

definition same_letter :: "char \<Rightarrow> char \<Rightarrow> bool" where
  "same_letter a b =
     (a = b
      \<or> (is_upper a \<and> (of_char b :: nat) = of_char a + 32)
      \<or> (is_upper b \<and> (of_char a :: nat) = of_char b + 32))"

definition caseless_equal :: "string \<Rightarrow> string \<Rightarrow> bool" where
  "caseless_equal s t = list_all2 same_letter s t"

section \<open>The part of Flask that app.py relies on\<close>

text \<open>
  Flask and Werkzeug are not part of the repository; what follows transcribes the
  behaviour of theirs that the entry point uses: the URL map with its rules, the
  dispatch of a request to a view function, and the standard answers for a path that
  matches no rule (404), a method no matching rule accepts (405) and a view function
  that raises (500).  Headers other than the content type are not modelled.
\<close>

datatype http_method = GET | HEAD | POST | PUT | DELETE | CONNECT | OPTIONS | TRACE | PATCH

record request =
  request_method :: http_method
  path_info :: string

datatype http_exception = NotFound | MethodNotAllowed | InternalServerError

fun code :: "http_exception \<Rightarrow> nat" where
  "code NotFound = 404"
| "code MethodNotAllowed = 405"
| "code InternalServerError = 500"

text \<open>
  A response is one of: a response object with status, content type and body; Werkzeug's
  standard page for an HTTP exception; a file of the static folder sent as it is; or no
  response at all, because an exception left the application and the WSGI server that
  called it (Werkzeug's debugger under \<^verbatim>\<open>app.run\<close>, the production server otherwise)
  answers with its own 500 page.
\<close>

datatype response =
    Response nat string string
  | ErrorPage http_exception
  | FileResponse string
  | Unhandled py_error

fun status_code :: "response \<Rightarrow> nat" where
  "status_code (Response st ct body) = st"
| "status_code (ErrorPage e) = code e"
| "status_code (FileResponse f) = 200"
| "status_code (Unhandled e) = 500"

text \<open>A template file is represented by what Jinja makes of it when it is loaded and
  rendered for this application: the text, or the exception raised.\<close>

datatype template_file = Renders string | Fails py_error

record folders =
  template_folder :: "string \<rightharpoonup> template_file"
  static_folder :: "string \<rightharpoonup> string"

definition render_template :: "folders \<Rightarrow> string \<Rightarrow> py_error + string" where
  "render_template fs name =
     (case template_folder fs name of
        None \<Rightarrow> Inl TemplateNotFound
      | Some (Fails e) \<Rightarrow> Inl e
      | Some (Renders html) \<Rightarrow> Inr html)"

text \<open>What a view function hands back or raises.\<close>

datatype view_rv = Str string | Resp response

datatype raised = Http http_exception | Py py_error

type_synonym view_func = "folders \<Rightarrow> (string \<times> string) list \<Rightarrow> raised + view_rv"

text \<open>A rule is a sequence of literal text and converters.  The only converter that
  occurs is the path converter, which takes the rest of the URL: one character that is
  not a slash, then anything.  It is matched in last position only.\<close>

datatype rule_part = Literal string | PathConverter string

fun match_parts :: "rule_part list \<Rightarrow> string \<Rightarrow> (string \<times> string) list option" where
  "match_parts [] p = (if p = [] then Some [] else None)"
| "match_parts (Literal s # ps) p =
     (if take (length s) p = s then match_parts ps (drop (length s) p) else None)"
| "match_parts (PathConverter a # ps) p =
     (if ps = [] \<and> p \<noteq> [] \<and> hd p \<noteq> CHR ''/'' then Some [(a, p)] else None)"

record url_rule =
  pattern :: "rule_part list"
  methods :: "http_method set"
  endpoint :: string

record flask =
  import_name :: string
  url_map :: "url_rule list"
  view_functions :: "string \<rightharpoonup> view_func"
  error_handlers :: "nat \<rightharpoonup> (http_exception \<Rightarrow> response)"

text \<open>\<^verbatim>\<open>add_url_rule\<close> with no \<^verbatim>\<open>methods\<close> option: the rule answers GET; Flask adds OPTIONS,
  which it answers itself, and Werkzeug adds HEAD to every rule that has GET.\<close>

definition add_url_rule :: "flask \<Rightarrow> rule_part list \<Rightarrow> string \<Rightarrow> view_func \<Rightarrow> flask" where
  "add_url_rule a pat ep f =
     a\<lparr>url_map := url_map a @ [\<lparr>pattern = pat, methods = {GET, HEAD, OPTIONS}, endpoint = ep\<rparr>],
       view_functions := (view_functions a)(ep \<mapsto> f)\<rparr>"

text \<open>The view function of the static route: the file of that name in the static
  folder, or not found.\<close>

definition send_static_file :: view_func where
  "send_static_file fs args =
     (case map_of args ''filename'' of
        None \<Rightarrow> Inl (Py KeyError)
      | Some name \<Rightarrow>
          (case static_folder fs name of
             None \<Rightarrow> Inl (Http NotFound)
           | Some content \<Rightarrow> Inr (Resp (FileResponse name))))"

text \<open>The constructor \<^verbatim>\<open>Flask(import_name)\<close>.  With the default \<^verbatim>\<open>static_folder\<close> it
  installs the rule \<^verbatim>\<open>/static/<path:filename>\<close> under the endpoint \<^verbatim>\<open>static\<close>; it installs
  no error handler.\<close>

definition Flask :: "string \<Rightarrow> flask" where
  "Flask name =
     add_url_rule
       \<lparr>import_name = name, url_map = [], view_functions = Map.empty,
        error_handlers = Map.empty\<rparr>
       [Literal ''/static/'', PathConverter ''filename''] ''static'' send_static_file"

text \<open>The decorator \<^verbatim>\<open>@app.route(rule)\<close> on a function that takes no argument and
  returns a string; the endpoint is the function's name.  The rule is taken as literal
  text, which it is when it holds no converter.\<close>

definition route :: "flask \<Rightarrow> string \<Rightarrow> string \<Rightarrow> (folders \<Rightarrow> py_error + string) \<Rightarrow> flask" where
  "route a r name f =
     add_url_rule a [Literal r] name
       (\<lambda>fs args. case f fs of Inl e \<Rightarrow> Inl (Py e) | Inr s \<Rightarrow> Inr (Str s))"

subsection \<open>Dispatch\<close>

text \<open>Matching a request against the URL map: a rule whose pattern matches the path and
  whose methods hold the request's method; failing that, 405 when some rule matches the
  path, 404 when none does.\<close>

definition url_match ::
  "url_rule list \<Rightarrow> http_method \<Rightarrow> string \<Rightarrow> http_exception + (url_rule \<times> (string \<times> string) list)"
where
  "url_match rules m p =
     (let hits = List.map_filter (\<lambda>r. map_option (Pair r) (match_parts (pattern r) p)) rules
      in case filter (\<lambda>(r, args). m \<in> methods r) hits of
           hit # rest \<Rightarrow> Inr hit
         | [] \<Rightarrow> if hits = [] then Inl NotFound else Inl MethodNotAllowed)"

definition dispatch_request :: "flask \<Rightarrow> folders \<Rightarrow> request \<Rightarrow> raised + view_rv" where
  "dispatch_request a fs req =
     (case url_match (url_map a) (request_method req) (path_info req) of
        Inl e \<Rightarrow> Inl (Http e)
      | Inr (r, args) \<Rightarrow>
          if request_method req = OPTIONS then Inr (Resp (Response 200 ''text/html'' ''''))
          else (case view_functions a (endpoint r) of
                  None \<Rightarrow> Inl (Py KeyError)
                | Some f \<Rightarrow> f fs args))"

text \<open>A string returned by a view becomes a 200 response of type text/html.\<close>

fun make_response :: "view_rv \<Rightarrow> response" where
  "make_response (Str s) = Response 200 ''text/html'' s"
| "make_response (Resp r) = r"

definition handle_http_exception :: "flask \<Rightarrow> http_exception \<Rightarrow> response" where
  "handle_http_exception a e =
     (case error_handlers a (code e) of None \<Rightarrow> ErrorPage e | Some h \<Rightarrow> h e)"

text \<open>Any other exception: in debug mode it is raised again and leaves the application;
  otherwise it becomes an internal server error.\<close>

definition handle_exception :: "flask \<Rightarrow> bool \<Rightarrow> py_error \<Rightarrow> response" where
  "handle_exception a dbg e =
     (if dbg then Unhandled e else handle_http_exception a InternalServerError)"

definition full_dispatch_request :: "flask \<Rightarrow> bool \<Rightarrow> folders \<Rightarrow> request \<Rightarrow> response" where
  "full_dispatch_request a dbg fs req =
     (case dispatch_request a fs req of
        Inr rv \<Rightarrow> make_response rv
      | Inl (Http e) \<Rightarrow> handle_http_exception a e
      | Inl (Py e) \<Rightarrow> handle_exception a dbg e)"

text \<open>Werkzeug normalises a path that has an empty segment before or while it matches
  it, in ways that have changed between its versions.  That normalisation is not
  modelled: the application answers here only a path that starts with a slash and has no
  two slashes in a row.\<close>

fun doubled_slash :: "string \<Rightarrow> bool" where
  "doubled_slash (a # b # cs) = ((a = CHR ''/'' \<and> b = CHR ''/'') \<or> doubled_slash (b # cs))"
| "doubled_slash cs = False"

definition canonical_path :: "string \<Rightarrow> bool" where
  "canonical_path p = (p \<noteq> [] \<and> hd p = CHR ''/'' \<and> \<not> doubled_slash p)"

definition wsgi_app :: "flask \<Rightarrow> bool \<Rightarrow> folders \<Rightarrow> request \<Rightarrow> response option" where
  "wsgi_app a dbg fs req =
     (if canonical_path (path_info req) then Some (full_dispatch_request a dbg fs req) else None)"

section \<open>app.py\<close>

text \<open>\<^verbatim>\<open>def index(): return render_template("index.html")\<close>\<close>

definition index :: "folders \<Rightarrow> py_error + string" where
  "index fs = render_template fs ''index.html''"

text \<open>\<^verbatim>\<open>app = Flask(__name__)\<close> with the route on \<^verbatim>\<open>/\<close>; the argument is the module's
  \<^verbatim>\<open>__name__\<close>.\<close>

definition app :: "string \<Rightarrow> flask" where
  "app name = route (Flask name) ''/'' ''index'' index"

text \<open>\<^verbatim>\<open>port = int(os.environ.get("PORT", 5000))\<close>\<close>

definition port :: "environ \<Rightarrow> py_error + int" where
  "port env = py_int (environ_get env ''PORT'' (PyInt 5000))"

text \<open>\<^verbatim>\<open>debug = os.environ.get("FLASK_DEBUG", "false").lower() == "true"\<close>\<close>

definition debug :: "environ \<Rightarrow> py_error + bool" where
  "debug env =
     (case py_lower (environ_get env ''FLASK_DEBUG'' (PyStr ''false'')) of
        Inl e \<Rightarrow> Inl e
      | Inr v \<Rightarrow> Inr (v = PyStr ''true''))"

text \<open>
  Running the module.  What it does to the world is recorded as a trace of its own calls
  on the environment and on \<^verbatim>\<open>app.run\<close>, in order.  It ends in one of three ways: the
  module body is finished (the module was imported), an exception left it, or
  \<^verbatim>\<open>app.run\<close> was entered, which hands the process to the development server for as long
  as the process lives.  What happens inside \<^verbatim>\<open>app.run\<close> (the bind of the socket by the
  operating system, the serving loop) belongs to Flask and is not modelled further.
\<close>

record run_call =
  run_host :: string
  run_port :: int
  run_debug :: bool

datatype effect = EnvironGet string | AppRun run_call

datatype outcome = Imported | Raised py_error | Serving run_call

record execution =
  module_app :: flask
  trace :: "effect list"
  outcome :: outcome

definition run_module :: "string \<Rightarrow> environ \<Rightarrow> execution" where
  "run_module name env =
     (if name = ''__main__'' then
        (case port env of
           Inl e \<Rightarrow>
             \<lparr>module_app = app name, trace = [EnvironGet ''PORT''], outcome = Raised e\<rparr>
         | Inr p \<Rightarrow>
             (case debug env of
                Inl e \<Rightarrow>
                  \<lparr>module_app = app name,
                   trace = [EnvironGet ''PORT'', EnvironGet ''FLASK_DEBUG''],
                   outcome = Raised e\<rparr>
              | Inr d \<Rightarrow>
                  (let c = \<lparr>run_host = ''0.0.0.0'', run_port = p, run_debug = d\<rparr>
                   in \<lparr>module_app = app name,
                       trace = [EnvironGet ''PORT'', EnvironGet ''FLASK_DEBUG'', AppRun c],
                       outcome = Serving c\<rparr>)))
      else \<lparr>module_app = app name, trace = [], outcome = Imported\<rparr>)"


section \<open>Auxiliary facts\<close>

lemma char_of_of_char_eq: "(of_char a :: nat) = n \<Longrightarrow> a = char_of n"
  by (metis char_of_char)

lemma lower_char_eq_iff: "lower_char a = lower_char b \<longleftrightarrow> same_letter a b"
  unfolding lower_char_def same_letter_def is_upper_def Let_def
  by (auto simp: char_of_eq_iff take_bit_eq_mod dest: char_of_of_char_eq)

lemma lower_eq_iff: "lower s = lower t \<longleftrightarrow> caseless_equal s t"
  unfolding lower_def caseless_equal_def
proof (induction s arbitrary: t)
  case Nil
  then show ?case by simp
next
  case (Cons a s)
  then show ?case by (cases t) (simp_all add: lower_char_eq_iff)
qed

lemma lower_true: "lower ''true'' = ''true''"
  by (simp add: lower_def lower_char_def is_upper_def)

lemma debug_eq:
  "debug env = Inr (\<exists>v. env ''FLASK_DEBUG'' = Some v \<and> caseless_equal v ''true'')"
proof (cases "env ''FLASK_DEBUG''")
  case None
  then show ?thesis
    by (simp add: debug_def environ_get_def lower_def lower_char_def is_upper_def)
next
  case (Some v)
  have "lower v = ''true'' \<longleftrightarrow> caseless_equal v ''true''"
    using lower_eq_iff [of v "''true''"] by (simp only: lower_true)
  with Some show ?thesis
    by (simp add: debug_def environ_get_def)
qed

lemma port_absent: "env ''PORT'' = None \<Longrightarrow> port env = Inr 5000"
  by (simp add: port_def environ_get_def)

lemma port_present: "env ''PORT'' = Some v \<Longrightarrow> port env = int_of_string v"
  by (simp add: port_def environ_get_def)

lemma run_module_main:
  "port env = Inr p \<Longrightarrow> debug env = Inr d \<Longrightarrow>
   run_module ''__main__'' env =
     \<lparr>module_app = app ''__main__'',
      trace = [EnvironGet ''PORT'', EnvironGet ''FLASK_DEBUG'',
               AppRun \<lparr>run_host = ''0.0.0.0'', run_port = p, run_debug = d\<rparr>],
      outcome = Serving \<lparr>run_host = ''0.0.0.0'', run_port = p, run_debug = d\<rparr>\<rparr>"
  by (simp add: run_module_def Let_def)

lemma run_module_raised:
  "port env = Inl e \<Longrightarrow>
   run_module ''__main__'' env =
     \<lparr>module_app = app ''__main__'', trace = [EnvironGet ''PORT''], outcome = Raised e\<rparr>"
  by (simp add: run_module_def)


lemma int_of_string_empty: "int_of_string '''' = Inl ValueError"
  by (simp add: int_of_string_def strip_def)

lemma int_of_string_error: "int_of_string s = Inl e \<Longrightarrow> e = ValueError"
  by (auto simp: int_of_string_def Let_def split: if_splits)







lemma url_map_app:
  "url_map (app name) =
     [\<lparr>pattern = [Literal ''/static/'', PathConverter ''filename''],
       methods = {GET, HEAD, OPTIONS}, endpoint = ''static''\<rparr>,
      \<lparr>pattern = [Literal ''/''], methods = {GET, HEAD, OPTIONS}, endpoint = ''index''\<rparr>]"
  by (simp add: app_def route_def Flask_def add_url_rule_def)

lemma view_index:
  "view_functions (app name) ''index'' =
     Some (\<lambda>fs args. case index fs of Inl e \<Rightarrow> Inl (Py e) | Inr s \<Rightarrow> Inr (Str s))"
  by (simp add: app_def route_def Flask_def add_url_rule_def)


lemma error_handlers_app: "error_handlers (app name) = Map.empty"
  by (simp add: app_def route_def Flask_def add_url_rule_def)

lemma canonical_root: "canonical_path ''/''"
  by (simp add: canonical_path_def)

lemma url_match_root:
  "url_match (url_map (app name)) m ''/'' =
     (if m \<in> {GET, HEAD, OPTIONS}
      then Inr (\<lparr>pattern = [Literal ''/''], methods = {GET, HEAD, OPTIONS},
                 endpoint = ''index''\<rparr>, [])
      else Inl MethodNotAllowed)"
  by (simp add: url_match_def url_map_app List.map_filter_simps)


lemma get_root:
  "full_dispatch_request (app name) dbg fs \<lparr>request_method = GET, path_info = ''/''\<rparr> =
     (case index fs of
        Inr html \<Rightarrow> Response 200 ''text/html'' html
      | Inl e \<Rightarrow> if dbg then Unhandled e else ErrorPage InternalServerError)"
  by (simp add: full_dispatch_request_def dispatch_request_def url_match_root view_index
      handle_exception_def handle_http_exception_def error_handlers_app split: sum.splits)





section \<open>The claims\<close>

text \<open>
  Claim C1, as worded, promises the rendered page with status 200 whenever the template
  file \<^verbatim>\<open>index.html\<close> exists.  A file that exists but that Jinja cannot render makes
  the view raise, and the answer is a 500.
\<close>

theorem index_corrupt_template_counterexample:
  "template_folder
     \<lparr>template_folder = map_of [(''index.html'', Fails TemplateSyntaxError)],
      static_folder = map_of []\<rparr> ''index.html'' \<noteq> None
   \<and> wsgi_app (app ''app'') False
         \<lparr>template_folder = map_of [(''index.html'', Fails TemplateSyntaxError)],
          static_folder = map_of []\<rparr>
         \<lparr>request_method = GET, path_info = ''/''\<rparr> = Some (ErrorPage InternalServerError)
   \<and> status_code (ErrorPage InternalServerError) = 500"
  by (simp add: wsgi_app_def canonical_root get_root index_def render_template_def)

text \<open>
  Claim C1, amended: for a request \<^verbatim>\<open>GET /\<close>, when \<^verbatim>\<open>index.html\<close> exists in the templates
  folder and renders without error, the handler \<^const>\<open>index\<close> returns its rendered
  contents, and the response has status 200 and content type \<^verbatim>\<open>text/html\<close>.
\<close>

theorem index_renders_template:
  assumes "template_folder fs ''index.html'' = Some (Renders html)"
  shows "index fs = Inr html
         \<and> wsgi_app (app name) dbg fs \<lparr>request_method = GET, path_info = ''/''\<rparr> =
             Some (Response 200 ''text/html'' html)"
  using assms by (simp add: wsgi_app_def canonical_root get_root index_def render_template_def)

theorem index_renders_template_witness:
  "wsgi_app (app ''app'') False
     \<lparr>template_folder = map_of [(''index.html'', Renders ''<h1>Taylor series</h1>'')],
      static_folder = map_of []\<rparr>
     \<lparr>request_method = GET, path_info = ''/''\<rparr> =
   Some (Response 200 ''text/html'' ''<h1>Taylor series</h1>'')"
proof -
  have "template_folder
          \<lparr>template_folder = map_of [(''index.html'', Renders ''<h1>Taylor series</h1>'')],
           static_folder = map_of []\<rparr> ''index.html'' =
        Some (Renders ''<h1>Taylor series</h1>'')"
    by simp
  from index_renders_template [OF this] show ?thesis
    by blast
qed



text \<open>
  Claim C3: when the module is run directly, the resolved debug flag is true exactly when
  \<^verbatim>\<open>FLASK_DEBUG\<close> is set to a value that equals \<^verbatim>\<open>true\<close> up to the case of its letters; for
  every other value, and when the variable is absent, it is false.  The flag is the one
  handed to the server.
\<close>

theorem debug_resolution:
  "debug env = Inr (\<exists>v. env ''FLASK_DEBUG'' = Some v \<and> caseless_equal v ''true'')
   \<and> (env ''FLASK_DEBUG'' = None \<longrightarrow> debug env = Inr False)
   \<and> (\<forall>p. port env = Inr p \<longrightarrow>
         outcome (run_module ''__main__'' env) =
           Serving \<lparr>run_host = ''0.0.0.0'', run_port = p,
                    run_debug = (\<exists>v. env ''FLASK_DEBUG'' = Some v \<and> caseless_equal v ''true'')\<rparr>)"
proof -
  have "debug env = Inr False" if "env ''FLASK_DEBUG'' = None"
    using that by (simp add: debug_eq)
  moreover have "outcome (run_module ''__main__'' env) =
           Serving \<lparr>run_host = ''0.0.0.0'', run_port = p,
                    run_debug = (\<exists>v. env ''FLASK_DEBUG'' = Some v \<and> caseless_equal v ''true'')\<rparr>"
    if "port env = Inr p" for p
    using that debug_eq [of env] by (simp add: run_module_main)
  ultimately show ?thesis
    using debug_eq [of env] by blast
qed

theorem debug_resolution_witness:
  "debug (map_of [(''FLASK_DEBUG'', ''TrUe'')]) = Inr True
   \<and> debug (map_of [(''FLASK_DEBUG'', ''1'')]) = Inr False
   \<and> debug (map_of [(''FLASK_DEBUG'', ''true '')]) = Inr False
   \<and> debug (map_of []) = Inr False
   \<and> outcome (run_module ''__main__'' (map_of [(''FLASK_DEBUG'', ''TRUE'')])) =
        Serving \<lparr>run_host = ''0.0.0.0'', run_port = 5000, run_debug = True\<rparr>"
proof -
  have ci: "caseless_equal ''TrUe'' ''true''" "caseless_equal ''TRUE'' ''true''"
    "\<not> caseless_equal ''1'' ''true''" "\<not> caseless_equal ''true '' ''true''"
    by (simp_all add: caseless_equal_def same_letter_def is_upper_def)
  have p: "port (map_of [(''FLASK_DEBUG'', ''TRUE'')]) = Inr 5000"
    by (simp add: port_absent)
  show ?thesis
    using debug_resolution [of "map_of [(''FLASK_DEBUG'', ''TrUe'')]"]
      debug_resolution [of "map_of [(''FLASK_DEBUG'', ''1'')]"]
      debug_resolution [of "map_of [(''FLASK_DEBUG'', ''true '')]"]
      debug_resolution [of "map_of []"]
      debug_resolution [of "map_of [(''FLASK_DEBUG'', ''TRUE'')]"] ci p
    by simp
qed










text \<open>
  Claim C8: for every value of \<^verbatim>\<open>PORT\<close> that does not parse as an integer, resolving the
  configuration raises \<^verbatim>\<open>ValueError\<close> and the run ends there: the environment has been read
  once, nothing is retried, and \<^verbatim>\<open>app.run\<close> is never called.
\<close>

theorem port_parse_error_stops_startup:
  assumes "env ''PORT'' = Some v" and "int_of_string v = Inl e"
  shows "e = ValueError
         \<and> port env = Inl ValueError
         \<and> run_module ''__main__'' env =
             \<lparr>module_app = app ''__main__'', trace = [EnvironGet ''PORT''],
              outcome = Raised ValueError\<rparr>"
proof -
  from assms(2) have e: "e = ValueError"
    by (rule int_of_string_error)
  with assms have "port env = Inl ValueError"
    by (simp add: port_present)
  with e show ?thesis
    by (simp add: run_module_raised)
qed

theorem port_parse_error_stops_startup_witness:
  "run_module ''__main__'' (map_of [(''PORT'', ''80a'')]) =
     \<lparr>module_app = app ''__main__'', trace = [EnvironGet ''PORT''],
      outcome = Raised ValueError\<rparr>"
proof -
  have v: "map_of [(''PORT'', ''80a'')] ''PORT'' = Some ''80a''"
    by simp
  have e: "int_of_string ''80a'' = Inl ValueError"
    by (simp add: int_of_string_def strip_def is_space_def is_digit_def)
  from port_parse_error_stops_startup
         [of "map_of [(''PORT'', ''80a'')]" "''80a''" ValueError, OF v e]
  show ?thesis
    by blast
qed



text \<open>
  Claim C10: a request to \<^verbatim>\<open>/\<close> with any method other than GET and the derived HEAD and
  OPTIONS is answered with the framework's standard 405 response; GET, HEAD and OPTIONS
  are not.
\<close>

theorem other_methods_not_allowed:
  "(m \<notin> {GET, HEAD, OPTIONS} \<longrightarrow>
      wsgi_app (app name) dbg fs \<lparr>request_method = m, path_info = ''/''\<rparr> =
        Some (ErrorPage MethodNotAllowed)
      \<and> status_code (ErrorPage MethodNotAllowed) = 405)
   \<and> (m \<in> {GET, HEAD, OPTIONS} \<longrightarrow>
      (\<exists>r. wsgi_app (app name) dbg fs \<lparr>request_method = m, path_info = ''/''\<rparr> = Some r
           \<and> status_code r \<noteq> 405))"
proof -
  have refused: "wsgi_app (app name) dbg fs \<lparr>request_method = m, path_info = ''/''\<rparr> =
      Some (ErrorPage MethodNotAllowed)"
    if "m \<notin> {GET, HEAD, OPTIONS}"
    using that
    by (simp add: wsgi_app_def canonical_root full_dispatch_request_def dispatch_request_def
        url_match_root handle_http_exception_def error_handlers_app)
  have view: "status_code (full_dispatch_request (app name) dbg fs
                 \<lparr>request_method = m, path_info = ''/''\<rparr>) \<noteq> 405"
    if "m = GET \<or> m = HEAD"
    using that
    by (cases "index fs")
      (auto simp: full_dispatch_request_def dispatch_request_def url_match_root view_index
        handle_exception_def handle_http_exception_def error_handlers_app)
  have options: "full_dispatch_request (app name) dbg fs
      \<lparr>request_method = OPTIONS, path_info = ''/''\<rparr> = Response 200 ''text/html'' ''''"
    by (simp add: full_dispatch_request_def dispatch_request_def url_match_root)
  have accepted: "\<exists>r. wsgi_app (app name) dbg fs
        \<lparr>request_method = m, path_info = ''/''\<rparr> = Some r \<and> status_code r \<noteq> 405"
    if "m \<in> {GET, HEAD, OPTIONS}"
  proof (cases "m = OPTIONS")
    case True
    with options show ?thesis
      by (simp add: wsgi_app_def canonical_root)
  next
    case False
    with that have "m = GET \<or> m = HEAD"
      by simp
    from view [OF this] show ?thesis
      by (simp add: wsgi_app_def canonical_root)
  qed
  from refused accepted show ?thesis
    by simp
qed

theorem other_methods_not_allowed_witness:
  "wsgi_app (app ''app'') False
     \<lparr>template_folder = map_of [(''index.html'', Renders ''<h1>Taylor series</h1>'')],
      static_folder = map_of []\<rparr>
     \<lparr>request_method = POST, path_info = ''/''\<rparr> = Some (ErrorPage MethodNotAllowed)"
proof -
  have "POST \<notin> {GET, HEAD, OPTIONS}"
    by simp
  with other_methods_not_allowed [of POST "''app''" False] show ?thesis
    by blast
qed

end
